theory Spec2Isabelle
  imports Main "HOL-Library.Sublist"
begin

section \<open>Reservation engine: data model\<close>

text \<open>
  Times (Go \<open>time.Time\<close>) are integers counting nanoseconds from Go's zero instant, so
  that \<open>IsZero t\<close> is \<open>t = 0\<close>, \<open>a.After(b)\<close> is \<open>b < a\<close> and \<open>a.Before(b)\<close> is \<open>a < b\<close>.
  Go's \<open>int\<close> and \<open>int64\<close> counters (identifiers, seats) are unbounded integers here.
  \<open>entity.BookingStatus\<close> is a Go string type and the status column is a plain
  \<open>VARCHAR(20)\<close>, so a status is a string; the four constants are abbreviations.
\<close>

type_synonym time = int
type_synonym BookingStatus = string

abbreviation BookingStatusPending :: BookingStatus where
  "BookingStatusPending \<equiv> ''pending''"
abbreviation BookingStatusConfirmed :: BookingStatus where
  "BookingStatusConfirmed \<equiv> ''confirmed''"
abbreviation BookingStatusCancelled :: BookingStatus where
  "BookingStatusCancelled \<equiv> ''cancelled''"
abbreviation BookingStatusExpired :: BookingStatus where
  "BookingStatusExpired \<equiv> ''expired''"

record Booking =
  ID :: int
  EventID :: int
  UserID :: int
  Seats :: int
  Status :: BookingStatus
  ExpiresAt :: time
  ReservationTimeout :: int
  CreatedAt :: time
  UpdatedAt :: time

record Event =
  Event_ID :: int
  Title :: string
  Description :: string
  Date :: time
  TotalSeats :: int
  Event_CreatedAt :: time
  Event_UpdatedAt :: time

record EventWithAvailability =
  EventOf :: Event
  AvailableSeats :: int
  BookedSeats :: int

record User =
  User_ID :: int
  Email :: string
  Name :: string
  TelegramID :: string

text \<open>
  The relational store: the three tables in insertion order and the \<open>SERIAL\<close> sequence
  that numbers new bookings.
\<close>

record db =
  events :: "Event list"
  users :: "User list"
  bookings :: "Booking list"
  next_booking_id :: int

text \<open>
  Errors are values. Repository errors carry the place they are raised at; service errors
  that wrap a cause (\<open>fmt.Errorf("...: %w", err)\<close>) carry the cause.
\<close>

datatype error =
    ErrBookingNotFound
  | ErrNoRows
  | ErrFailedToGetCurrentBooking
  | ErrFailedToGetEventTotalSeats
  | ErrUserAlreadyHasBooking
  | ErrNotEnoughAvailableSeats int int
  | ErrNotEnoughSeatsToConfirm
  | ErrFailedToCreateBooking
  | ErrEventNotFound error
  | ErrEventInPast
  | ErrInsufficientSeats int int
  | ErrUserNotFound error
  | ErrAlreadyPendingBooking
  | ErrAlreadyConfirmedBooking
  | ErrCreatingBooking error
  | ErrBookingLookup error
  | ErrBookingNotPending
  | ErrUpdatingExpiredStatus error
  | ErrBookingExpired
  | ErrGettingEventInfo error
  | ErrInsufficientSeatsToConfirm
  | ErrConfirmingBooking error
  | ErrBookingAlreadyCancelled
  | ErrCancellingBooking error
  | ErrSeatsMustBePositive
  | ErrSeatsOnlyForPending
  | ErrInsufficientSeatsForUpdate
  | ErrUpdatingSeats error
  | ErrInvalidBookingStatus
  | ErrUpdatingBookingStatus error

section \<open>Relational data adapter\<close>

text \<open>\<open>SELECT COALESCE(SUM(seats), 0) FROM bookings WHERE event_id = $1 AND status = 'confirmed'\<close>\<close>

definition confirmedSeats :: "db \<Rightarrow> int \<Rightarrow> int" where
  "confirmedSeats d e =
     sum_list (map Seats (filter (\<lambda>b. EventID b = e \<and> Status b = BookingStatusConfirmed) (bookings d)))"

text \<open>\<open>SELECT total_seats FROM events WHERE id = $1\<close>; no row is an error of the scan.\<close>

definition findEvent :: "db \<Rightarrow> int \<Rightarrow> Event option" where
  "findEvent d e = find (\<lambda>ev. Event_ID ev = e) (events d)"

definition findUser :: "db \<Rightarrow> int \<Rightarrow> User option" where
  "findUser d u = find (\<lambda>us. User_ID us = u) (users d)"

definition findBooking :: "db \<Rightarrow> int \<Rightarrow> Booking option" where
  "findBooking d i = find (\<lambda>b. ID b = i) (bookings d)"

text \<open>\<open>SELECT COUNT(*) ... AND status IN ('pending', 'confirmed')\<close>\<close>

definition isActive :: "Booking \<Rightarrow> bool" where
  "isActive b = (Status b = BookingStatusPending \<or> Status b = BookingStatusConfirmed)"

definition existingBookingCount :: "db \<Rightarrow> int \<Rightarrow> int \<Rightarrow> nat" where
  "existingBookingCount d e u =
     length (filter (\<lambda>b. EventID b = e \<and> UserID b = u \<and> isActive b) (bookings d))"

text \<open>
  \<open>bookingRepository.Create\<close>. One transaction: every error leaves the store as it was.
  The insert writes the caller's status, computes \<open>expires_at\<close> from the timeout in
  minutes, and takes the identifier from the sequence. The foreign key on \<open>user_id\<close>
  makes the insert fail for an unknown user.
\<close>

definition minute :: int where
  "minute = 60 * 1000000000"

definition Create :: "time \<Rightarrow> db \<Rightarrow> Booking \<Rightarrow> error + (db \<times> Booking)" where
  "Create now d booking =
     (let confirmed = confirmedSeats d (EventID booking) in
      case findEvent d (EventID booking) of
        None \<Rightarrow> Inl ErrFailedToGetEventTotalSeats
      | Some ev \<Rightarrow>
          if existingBookingCount d (EventID booking) (UserID booking) > 0
          then Inl ErrUserAlreadyHasBooking
          else if confirmed + Seats booking > TotalSeats ev
          then Inl (ErrNotEnoughAvailableSeats (Seats booking) (TotalSeats ev - confirmed))
          else if findUser d (UserID booking) = None
          then Inl ErrFailedToCreateBooking
          else
            let b = booking\<lparr>ID := next_booking_id d,
                           ExpiresAt := now + ReservationTimeout booking * minute,
                           CreatedAt := now, UpdatedAt := now\<rparr>
            in Inr (d\<lparr>bookings := bookings d @ [b],
                      next_booking_id := next_booking_id d + 1\<rparr>, b))"

text \<open>\<open>bookingRepository.GetByID\<close>: no row is \<open>entity.ErrBookingNotFound\<close>.\<close>

definition GetByID :: "db \<Rightarrow> int \<Rightarrow> error + Booking" where
  "GetByID d i = (case findBooking d i of None \<Rightarrow> Inl ErrBookingNotFound | Some b \<Rightarrow> Inr b)"

text \<open>
  \<open>bookingRepository.GetByEventAndUser\<close>: the active bookings of the pair, newest first,
  limited to one; no row is \<open>nil, nil\<close>.
\<close>

fun newest :: "Booking list \<Rightarrow> Booking option" where
  "newest [] = None"
| "newest (b # bs) =
     (case newest bs of
        None \<Rightarrow> Some b
      | Some c \<Rightarrow> if CreatedAt c > CreatedAt b then Some c else Some b)"

definition GetByEventAndUser :: "db \<Rightarrow> int \<Rightarrow> int \<Rightarrow> Booking option" where
  "GetByEventAndUser d e u =
     newest (filter (\<lambda>b. EventID b = e \<and> UserID b = u \<and> isActive b) (bookings d))"

text \<open>
  \<open>bookingRepository.UpdateStatus\<close>. The seat check is made only for the transition from
  pending to confirmed; the \<open>UPDATE\<close> then writes the status whatever the current one is.
\<close>

definition setStatus :: "time \<Rightarrow> int \<Rightarrow> BookingStatus \<Rightarrow> Booking \<Rightarrow> Booking" where
  "setStatus now i s b = (if ID b = i then b\<lparr>Status := s, UpdatedAt := now\<rparr> else b)"

definition UpdateStatus :: "time \<Rightarrow> db \<Rightarrow> int \<Rightarrow> BookingStatus \<Rightarrow> error + db" where
  "UpdateStatus now d i status =
     (case findBooking d i of
        None \<Rightarrow> Inl ErrFailedToGetCurrentBooking
      | Some currentBooking \<Rightarrow>
          if Status currentBooking = BookingStatusPending \<and> status = BookingStatusConfirmed
          then
            (let confirmed = confirmedSeats d (EventID currentBooking) in
             case findEvent d (EventID currentBooking) of
               None \<Rightarrow> Inl ErrFailedToGetEventTotalSeats
             | Some ev \<Rightarrow>
                 if confirmed + Seats currentBooking > TotalSeats ev
                 then Inl ErrNotEnoughSeatsToConfirm
                 else Inr (d\<lparr>bookings := map (setStatus now i status) (bookings d)\<rparr>))
          else Inr (d\<lparr>bookings := map (setStatus now i status) (bookings d)\<rparr>))"

text \<open>
  \<open>bookingRepository.Update\<close>: writes every column of the row with the booking's
  identifier; no such row is \<open>entity.ErrBookingNotFound\<close>.
\<close>

definition Update :: "time \<Rightarrow> db \<Rightarrow> Booking \<Rightarrow> error + db" where
  "Update now d booking =
     (if findBooking d (ID booking) = None then Inl ErrBookingNotFound
      else Inr (d\<lparr>bookings :=
                  map (\<lambda>b. if ID b = ID booking
                            then booking\<lparr>CreatedAt := CreatedAt b, UpdatedAt := now\<rparr>
                            else b) (bookings d)\<rparr>))"

text \<open>
  \<open>eventRepository.GetByID\<close>: the event joined with the sum of its confirmed seats;
  \<open>AvailableSeats = TotalSeats - BookedSeats\<close>.
\<close>

definition Event_GetByID :: "db \<Rightarrow> int \<Rightarrow> error + EventWithAvailability" where
  "Event_GetByID d e =
     (case findEvent d e of
        None \<Rightarrow> Inl ErrNoRows
      | Some ev \<Rightarrow>
          Inr \<lparr>EventOf = ev,
               AvailableSeats = TotalSeats ev - confirmedSeats d e,
               BookedSeats = confirmedSeats d e\<rparr>)"

definition User_GetByID :: "db \<Rightarrow> int \<Rightarrow> error + User" where
  "User_GetByID d u = (case findUser d u of None \<Rightarrow> Inl ErrNoRows | Some us \<Rightarrow> Inr us)"

section \<open>Reservation engine: operations of the booking service\<close>

text \<open>
  Every operation takes the reading of the clock it works with and the store, and returns
  the store it leaves together with the error it reports (\<open>None\<close> for \<open>nil\<close>). The tasks an
  operation publishes and the messages it sends do not touch the store; a failure to
  publish is only logged, so they are left out here. In \<open>BookSeats\<close> the switch on the
  status of an existing booking has a case for pending and one for confirmed, and goes on
  for any other status.
\<close>

record BookSeatsRequest =
  Req_EventID :: int
  Req_UserID :: int
  Req_Seats :: int
  Req_ReservationTimeout :: int

definition BookSeats :: "time \<Rightarrow> db \<Rightarrow> BookSeatsRequest \<Rightarrow> error + (db \<times> Booking)" where
  "BookSeats now d req =
     (case Event_GetByID d (Req_EventID req) of
        Inl e \<Rightarrow> Inl (ErrEventNotFound e)
      | Inr eventWithAvailability \<Rightarrow>
          if Date (EventOf eventWithAvailability) < now then Inl ErrEventInPast
          else if AvailableSeats eventWithAvailability < Req_Seats req
          then Inl (ErrInsufficientSeats (Req_Seats req) (AvailableSeats eventWithAvailability))
          else
            (case User_GetByID d (Req_UserID req) of
               Inl e \<Rightarrow> Inl (ErrUserNotFound e)
             | Inr user \<Rightarrow>
                 (let existingBooking = GetByEventAndUser d (Req_EventID req) (Req_UserID req) in
                  if map_option Status existingBooking = Some BookingStatusPending
                  then Inl ErrAlreadyPendingBooking
                  else if map_option Status existingBooking = Some BookingStatusConfirmed
                  then Inl ErrAlreadyConfirmedBooking
                  else
                    (let timeout = (if Req_ReservationTimeout req = 0 then 30
                                    else Req_ReservationTimeout req);
                         booking = \<lparr>ID = 0, EventID = Req_EventID req,
                                    UserID = Req_UserID req, Seats = Req_Seats req,
                                    Status = BookingStatusPending, ExpiresAt = 0,
                                    ReservationTimeout = timeout,
                                    CreatedAt = 0, UpdatedAt = 0\<rparr>
                     in case Create now d booking of
                          Inl e \<Rightarrow> Inl (ErrCreatingBooking e)
                        | Inr r \<Rightarrow> Inr r))))"

definition ConfirmBooking :: "time \<Rightarrow> db \<Rightarrow> int \<Rightarrow> db \<times> error option" where
  "ConfirmBooking now d bookingID =
     (case GetByID d bookingID of
        Inl e \<Rightarrow> (d, Some (ErrBookingLookup e))
      | Inr booking \<Rightarrow>
          if Status booking \<noteq> BookingStatusPending then (d, Some ErrBookingNotPending)
          else if now > ExpiresAt booking
          then (case UpdateStatus now d bookingID BookingStatusExpired of
                  Inl e \<Rightarrow> (d, Some (ErrUpdatingExpiredStatus e))
                | Inr d' \<Rightarrow> (d', Some ErrBookingExpired))
          else
            (case Event_GetByID d (EventID booking) of
               Inl e \<Rightarrow> (d, Some (ErrGettingEventInfo e))
             | Inr eventWithAvailability \<Rightarrow>
                 if AvailableSeats eventWithAvailability < Seats booking
                 then (d, Some ErrInsufficientSeatsToConfirm)
                 else (case UpdateStatus now d bookingID BookingStatusConfirmed of
                         Inl e \<Rightarrow> (d, Some (ErrConfirmingBooking e))
                       | Inr d' \<Rightarrow> (d', None))))"

definition CancelBooking :: "time \<Rightarrow> db \<Rightarrow> int \<Rightarrow> string \<Rightarrow> db \<times> error option" where
  "CancelBooking now d bookingID reason =
     (case GetByID d bookingID of
        Inl e \<Rightarrow> (d, Some (ErrBookingLookup e))
      | Inr booking \<Rightarrow>
          if Status booking = BookingStatusCancelled \<or> Status booking = BookingStatusExpired
          then (d, Some ErrBookingAlreadyCancelled)
          else (case UpdateStatus now d bookingID BookingStatusCancelled of
                  Inl e \<Rightarrow> (d, Some (ErrCancellingBooking e))
                | Inr d' \<Rightarrow> (d', None)))"

text \<open>\<open>ExpireBooking\<close> hands the identifier to \<open>UpdateStatus\<close> and returns its error as it is.\<close>

definition ExpireBooking :: "time \<Rightarrow> db \<Rightarrow> int \<Rightarrow> db \<times> error option" where
  "ExpireBooking now d bookingID =
     (case UpdateStatus now d bookingID BookingStatusExpired of
        Inl e \<Rightarrow> (d, Some e)
      | Inr d' \<Rightarrow> (d', None))"

definition UpdateBookingSeats :: "time \<Rightarrow> db \<Rightarrow> int \<Rightarrow> int \<Rightarrow> db \<times> error option" where
  "UpdateBookingSeats now d bookingID seats =
     (if seats \<le> 0 then (d, Some ErrSeatsMustBePositive)
      else case GetByID d bookingID of
        Inl e \<Rightarrow> (d, Some (ErrBookingLookup e))
      | Inr booking \<Rightarrow>
          if Status booking \<noteq> BookingStatusPending then (d, Some ErrSeatsOnlyForPending)
          else
            (case Event_GetByID d (EventID booking) of
               Inl e \<Rightarrow> (d, Some (ErrGettingEventInfo e))
             | Inr eventWithAvailability \<Rightarrow>
                 (let seatDifference = seats - Seats booking in
                  if AvailableSeats eventWithAvailability + seatDifference < 0
                  then (d, Some ErrInsufficientSeatsForUpdate)
                  else (case Update now d (booking\<lparr>Seats := seats\<rparr>) of
                          Inl e \<Rightarrow> (d, Some (ErrUpdatingSeats e))
                        | Inr d' \<Rightarrow> (d', None)))))"

definition validStatus :: "BookingStatus \<Rightarrow> bool" where
  "validStatus s = (s = BookingStatusPending \<or> s = BookingStatusConfirmed \<or>
                    s = BookingStatusCancelled \<or> s = BookingStatusExpired)"

definition UpdateBookingStatus :: "time \<Rightarrow> db \<Rightarrow> int \<Rightarrow> BookingStatus \<Rightarrow> db \<times> error option" where
  "UpdateBookingStatus now d bookingID status =
     (if \<not> validStatus status then (d, Some ErrInvalidBookingStatus)
      else case UpdateStatus now d bookingID status of
        Inl e \<Rightarrow> (d, Some (ErrUpdatingBookingStatus e))
      | Inr d' \<Rightarrow> (d', None))"

text \<open>
  A public operation with its arguments; \<open>step\<close> applies one at a clock reading and keeps
  the store it leaves, \<open>run\<close> applies a sequence from left to right.
\<close>

datatype operation =
    OpBookSeats BookSeatsRequest
  | OpConfirmBooking int
  | OpCancelBooking int string
  | OpExpireBooking int
  | OpUpdateBookingSeats int int
  | OpUpdateBookingStatus int BookingStatus

fun step :: "db \<Rightarrow> time \<times> operation \<Rightarrow> db" where
  "step d (now, OpBookSeats req) =
     (case BookSeats now d req of Inl e \<Rightarrow> d | Inr (d', b) \<Rightarrow> d')"
| "step d (now, OpConfirmBooking i) = fst (ConfirmBooking now d i)"
| "step d (now, OpCancelBooking i reason) = fst (CancelBooking now d i reason)"
| "step d (now, OpExpireBooking i) = fst (ExpireBooking now d i)"
| "step d (now, OpUpdateBookingSeats i n) = fst (UpdateBookingSeats now d i n)"
| "step d (now, OpUpdateBookingStatus i s) = fst (UpdateBookingStatus now d i s)"

definition run :: "db \<Rightarrow> (time \<times> operation) list \<Rightarrow> db" where
  "run d ops = foldl step d ops"

text \<open>The property P2 of an event: its confirmed seats do not exceed its total seats.\<close>

definition capacityOK :: "db \<Rightarrow> Event \<Rightarrow> bool" where
  "capacityOK d ev = (confirmedSeats d (Event_ID ev) \<le> TotalSeats ev)"

text \<open>A store with one event of one seat and two users, and a run of operations on it.\<close>

definition event1 :: Event where
  "event1 = \<lparr>Event_ID = 1, Title = ''concert'', Description = [], Date = 9000000000000,
             TotalSeats = 1, Event_CreatedAt = 0, Event_UpdatedAt = 0\<rparr>"

definition db0 :: db where
  "db0 = \<lparr>events = [event1],
          users = [\<lparr>User_ID = 1, Email = ''a'', Name = ''a'', TelegramID = []\<rparr>,
                   \<lparr>User_ID = 2, Email = ''b'', Name = ''b'', TelegramID = []\<rparr>],
          bookings = [], next_booking_id = 1\<rparr>"

definition overbooking_run :: "(time \<times> operation) list" where
  "overbooking_run =
     [(10, OpBookSeats \<lparr>Req_EventID = 1, Req_UserID = 1, Req_Seats = 1, Req_ReservationTimeout = 0\<rparr>),
      (11, OpBookSeats \<lparr>Req_EventID = 1, Req_UserID = 2, Req_Seats = 1, Req_ReservationTimeout = 0\<rparr>),
      (12, OpConfirmBooking 1),
      (13, OpExpireBooking 2),
      (14, OpUpdateBookingStatus 2 BookingStatusConfirmed)]"

definition booking_run :: "(time \<times> operation) list" where
  "booking_run = take 3 overbooking_run"

text \<open>The store after the two reservations, and after the first of them is confirmed.\<close>

definition pending1 :: Booking where
  "pending1 = \<lparr>ID = 1, EventID = 1, UserID = 1, Seats = 1, Status = BookingStatusPending,
                ExpiresAt = 1800000000010, ReservationTimeout = 30,
                CreatedAt = 10, UpdatedAt = 10\<rparr>"

definition pending2 :: Booking where
  "pending2 = \<lparr>ID = 2, EventID = 1, UserID = 2, Seats = 1, Status = BookingStatusPending,
                ExpiresAt = 1800000000011, ReservationTimeout = 30,
                CreatedAt = 11, UpdatedAt = 11\<rparr>"

definition confirmed1 :: Booking where
  "confirmed1 = pending1\<lparr>Status := BookingStatusConfirmed, UpdatedAt := 12\<rparr>"

definition db_pending :: db where
  "db_pending = db0\<lparr>bookings := [pending1, pending2], next_booking_id := 3\<rparr>"

definition db_confirmed :: db where
  "db_confirmed = db0\<lparr>bookings := [confirmed1, pending2], next_booking_id := 3\<rparr>"

text \<open>
  A second store for the seat update: ten seats, eight of them confirmed, and a pending
  reservation of one seat.
\<close>

definition db_seats :: db where
  "db_seats = db0\<lparr>events := [event1\<lparr>TotalSeats := 10\<rparr>],
                  bookings := [confirmed1\<lparr>Seats := 8\<rparr>, pending2],
                  next_booking_id := 3\<rparr>"

text \<open>The terminal statuses, and the rows of the bookings table with a given identifier.\<close>

definition isTerminal :: "BookingStatus \<Rightarrow> bool" where
  "isTerminal s = (s = BookingStatusConfirmed \<or> s = BookingStatusCancelled \<or> s = BookingStatusExpired)"

definition rowsOf :: "db \<Rightarrow> int \<Rightarrow> Booking list" where
  "rowsOf d i = filter (\<lambda>b. ID b = i) (bookings d)"

definition terminalAt :: "db \<Rightarrow> int \<Rightarrow> bool" where
  "terminalAt d i = (rowsOf d i \<noteq> [] \<and> list_all (\<lambda>b. isTerminal (Status b)) (rowsOf d i))"

text \<open>The sequence hands out identifiers above every identifier in the table.\<close>

definition idsBelowNext :: "db \<Rightarrow> bool" where
  "idsBelowNext d = list_all (\<lambda>b. ID b < next_booking_id d) (bookings d)"

fun resetsToPending :: "operation \<Rightarrow> bool" where
  "resetsToPending (OpUpdateBookingStatus i s) = (s = BookingStatusPending)"
| "resetsToPending _ = False"

definition noReset :: "time \<times> operation \<Rightarrow> bool" where
  "noReset x = (\<not> resetsToPending (snd x))"

definition keeps :: "db \<Rightarrow> int \<Rightarrow> bool" where
  "keeps d i = (idsBelowNext d \<and> terminalAt d i)"

text \<open>The store with the \<open>updated_at\<close> column blanked, to compare stores up to that column.\<close>

definition forgetUpdatedAt :: "db \<Rightarrow> db" where
  "forgetUpdatedAt d = d\<lparr>bookings := map (\<lambda>b. b\<lparr>UpdatedAt := 0\<rparr>) (bookings d)\<rparr>"

section \<open>Retry policy\<close>

text \<open>
  Go's \<open>int\<close>, \<open>int64\<close> and \<open>time.Duration\<close> are 64-bit two's complement: \<open>wrap64\<close> is the
  value an arithmetic result takes, \<open>shl1 n\<close> is \<open>1 << n\<close> for a shift count \<open>n \<ge> 0\<close>, and
  \<open>quot\<close> is Go's division, which truncates towards zero.
\<close>

definition wrap64 :: "int \<Rightarrow> int" where
  "wrap64 x = (x + 2 ^ 63) mod 2 ^ 64 - 2 ^ 63"

definition shl1 :: "int \<Rightarrow> int" where
  "shl1 n = wrap64 (2 ^ nat n)"

definition quot :: "int \<Rightarrow> int \<Rightarrow> int" where
  "quot a b = sgn a * sgn b * (\<bar>a\<bar> div \<bar>b\<bar>)"

text \<open>
  The random source is an input: \<open>r\<close> is the raw value it yields. \<open>rand.Int63n(n)\<close> panics
  for \<open>n \<le> 0\<close> and otherwise returns a value in \<open>[0, n)\<close>; every such value is \<open>r mod n\<close> for
  some \<open>r\<close>. \<open>rand.Intn(2)\<close> is \<open>r mod 2\<close>.
\<close>

datatype panic = PanicInt63n

definition Int63n :: "int \<Rightarrow> int \<Rightarrow> panic + int" where
  "Int63n r n = (if n \<le> 0 then Inl PanicInt63n else Inr (r mod n))"

definition Intn2 :: "int \<Rightarrow> int" where
  "Intn2 r = r mod 2"

record RetryManager =
  maxRetries :: int
  baseDelay :: int
  maxDelay :: int

definition NewRetryManager :: "int \<Rightarrow> int \<Rightarrow> RetryManager" where
  "NewRetryManager m b = \<lparr>maxRetries = m, baseDelay = b, maxDelay = wrap64 (b * 16)\<rparr>"

record Task =
  Task_ID :: string
  Type :: string
  Data :: "(string \<times> string) list option"
  ExecuteAt :: time
  Task_CreatedAt :: time
  Attempts :: int
  MaxRetries :: int

text \<open>
  \<open>strings.ToLower\<close> on the bytes of the string: the ASCII capitals are lowered, every
  other byte is kept. \<open>strings.Contains\<close> looks for the pattern at every position.
\<close>

definition lower :: "char \<Rightarrow> char" where
  "lower c = (let n = (of_char c :: nat) in if 65 \<le> n \<and> n \<le> 90 then char_of (n + 32) else c)"

definition ToLower :: "string \<Rightarrow> string" where
  "ToLower s = map lower s"

fun Contains :: "string \<Rightarrow> string \<Rightarrow> bool" where
  "Contains [] sub = (sub = [])"
| "Contains (c # s) sub = (prefix sub (c # s) \<or> Contains s sub)"

definition nonRetryableErrors :: "string list" where
  "nonRetryableErrors = [''invalid'', ''not found'', ''permission denied'', ''validation failed'']"

text \<open>An error is \<open>None\<close> for \<open>nil\<close> and \<open>Some\<close> of its message otherwise.\<close>

definition isRetryableError :: "string option \<Rightarrow> bool" where
  "isRetryableError err =
     (case err of
        None \<Rightarrow> False
      | Some errStr \<Rightarrow>
          \<not> list_ex (\<lambda>pattern. Contains (ToLower errStr) (ToLower pattern)) nonRetryableErrors)"

text \<open>
  \<open>calculateBackoff\<close>: the jitter is drawn below half of the backoff, added or subtracted
  on the toss of a coin, and the cap is applied to the result.
\<close>

definition calculateBackoff :: "RetryManager \<Rightarrow> int \<Rightarrow> int \<Rightarrow> int \<Rightarrow> panic + int" where
  "calculateBackoff r attempt r1 r2 =
     (if attempt \<le> 0 then Inr (baseDelay r)
      else
        let backoff = wrap64 (baseDelay r * shl1 (attempt - 1)) in
        case Int63n r1 (quot backoff 2) of
          Inl p \<Rightarrow> Inl p
        | Inr jitter \<Rightarrow>
            let backoff' = (if Intn2 r2 = 0 then wrap64 (backoff + jitter)
                            else wrap64 (backoff - jitter))
            in Inr (if backoff' > maxDelay r then maxDelay r else backoff'))"

definition ShouldRetry ::
  "RetryManager \<Rightarrow> Task \<Rightarrow> string option \<Rightarrow> int \<Rightarrow> int \<Rightarrow> panic + (bool \<times> int)" where
  "ShouldRetry r task err r1 r2 =
     (if Attempts task \<ge> MaxRetries task then Inr (False, 0)
      else if \<not> isRetryableError err then Inr (False, 0)
      else case calculateBackoff r (Attempts task) r1 r2 of
             Inl p \<Rightarrow> Inl p
           | Inr delay \<Rightarrow> Inr (True, delay))"

definition second :: int where
  "second = 1000000000"

definition millisecond :: int where
  "millisecond = 1000000"

definition sample_task :: Task where
  "sample_task = \<lparr>Task_ID = ''t1'', Type = ''send_notification'', Data = Some [],
            ExecuteAt = 0, Task_CreatedAt = 0, Attempts = 1, MaxRetries = 3\<rparr>"


section \<open>Task queue\<close>

text \<open>
  \<open>UnixNano\<close> counts from the Unix epoch, which lies \<open>62135596800\<close> seconds after Go's zero
  instant. \<open>fmt_d\<close> is \<open>fmt.Sprintf("%d", n)\<close>.
\<close>

definition UnixNano :: "time \<Rightarrow> int" where
  "UnixNano t = t - 62135596800 * second"

function digits :: "int \<Rightarrow> string" where
  "digits n = (if n < 10 then [char_of (48 + n)]
               else digits (n div 10) @ [char_of (48 + n mod 10)])"
  by pat_completeness auto
termination
  by (relation "measure nat") auto

declare digits.simps [simp del]

text \<open>The number a string of decimal digits stands for.\<close>

definition undigits :: "string \<Rightarrow> int" where
  "undigits s = foldl (\<lambda>a c. 10 * a + (of_char c - 48)) 0 s"

definition fmt_d :: "int \<Rightarrow> string" where
  "fmt_d n = (if n < 0 then CHR ''-'' # digits (- n) else digits n)"

text \<open>\<open>generateTaskID\<close>: the clock reading and a draw of \<open>rand.Int63()\<close>.\<close>

definition generateTaskID :: "time \<Rightarrow> int \<Rightarrow> string" where
  "generateTaskID now r = ''task_'' @ fmt_d (UnixNano now) @ ''_'' @ fmt_d r"

text \<open>
  The store of the queue: the ready list and the in-flight list (left end first), and the
  delayed set and the dead-letter set as members with their scores. A score is kept as
  the count of nanoseconds since the Unix epoch; the code hands Redis this count divided
  by \<open>1e9\<close> as a float. The counters kept under the metrics keys are not part of this
  store.
\<close>

record FailedTask =
  FT_Task :: Task
  Error :: string
  FailedAt :: time
  FT_Attempts :: int

record RedisState =
  mainQueue :: "string list"
  delayedQueue :: "(int \<times> string) list"
  processingQueue :: "string list"
  dlq :: "(int \<times> FailedTask) list"

definition ZAdd :: "(int \<times> 'a) list \<Rightarrow> int \<Rightarrow> 'a \<Rightarrow> (int \<times> 'a) list" where
  "ZAdd z score member = (score, member) # filter (\<lambda>x. snd x \<noteq> member) z"

text \<open>
  The queue object: the default number of retries of its configuration, whether the
  dead-letter queue is enabled, whether a dead-letter handler is set, and the retry
  manager.
\<close>

record RedisQueue =
  cfg_MaxRetries :: int
  EnableDLQ :: bool
  dlqHandlerSet :: bool
  retryManager :: RetryManager

datatype qerror =
    ErrTaskCannotBeNil
  | ErrTaskTypeRequired
  | ErrInvalidTask qerror
  | ErrMarshalTask
  | ErrPublishDelayed
  | ErrPublishImmediate
  | ErrMoveToProcessing

text \<open>
  \<open>validateTask\<close> works on the caller's task through a pointer: the task it leaves is
  returned with the error. The identifier is assigned before the type is checked.
\<close>

definition validateTask :: "RedisQueue \<Rightarrow> time \<Rightarrow> int \<Rightarrow> Task \<Rightarrow> qerror option \<times> Task" where
  "validateTask q now r task =
     (let t1 = (if Task_ID task = [] then task\<lparr>Task_ID := generateTaskID now r\<rparr> else task) in
      if Type t1 = [] then (Some ErrTaskTypeRequired, t1)
      else
        let t2 = (if Data t1 = None then t1\<lparr>Data := Some []\<rparr> else t1);
            t3 = (if MaxRetries t2 = 0 then t2\<lparr>MaxRetries := cfg_MaxRetries q\<rparr> else t2);
            t4 = (if Task_CreatedAt t3 = 0 then t3\<lparr>Task_CreatedAt := now\<rparr> else t3);
            t5 = (if ExecuteAt t4 = 0 then t4\<lparr>ExecuteAt := now\<rparr> else t4)
        in (None, t5))"

text \<open>
  \<open>Publish\<close>. The inputs beside the task: \<open>marshal\<close> is \<open>json.Marshal\<close> (\<open>None\<close> when it
  fails), \<open>storeOK\<close> tells whether the Redis command succeeds, \<open>now\<close> and \<open>r\<close> are the clock
  and the random draw of \<open>validateTask\<close>, \<open>now'\<close> is the clock read for the routing test.
  A \<open>nil\<close> task is \<open>None\<close>.
\<close>

definition Publish ::
  "RedisQueue \<Rightarrow> (Task \<Rightarrow> string option) \<Rightarrow> bool \<Rightarrow> time \<Rightarrow> int \<Rightarrow> time \<Rightarrow>
   RedisState \<Rightarrow> Task option \<Rightarrow> qerror option \<times> Task option \<times> RedisState" where
  "Publish q marshal storeOK now r now' st taskp =
     (case taskp of
        None \<Rightarrow> (Some ErrTaskCannotBeNil, None, st)
      | Some t \<Rightarrow>
          (case validateTask q now r t of
             (Some err, task) \<Rightarrow> (Some (ErrInvalidTask err), Some task, st)
           | (None, task) \<Rightarrow>
               (case marshal task of
                  None \<Rightarrow> (Some ErrMarshalTask, Some task, st)
                | Some taskData \<Rightarrow>
                    if ExecuteAt task \<noteq> 0 \<and> ExecuteAt task > now'
                    then
                      (if storeOK
                       then (None, Some task,
                             st\<lparr>delayedQueue :=
                                  ZAdd (delayedQueue st) (UnixNano (ExecuteAt task)) taskData\<rparr>)
                       else (Some ErrPublishDelayed, Some task, st))
                    else
                      (if storeOK
                       then (None, Some task, st\<lparr>mainQueue := taskData # mainQueue st\<rparr>)
                       else (Some ErrPublishImmediate, Some task, st)))))"

text \<open>
  \<open>DefaultDLQHandler.HandleFailedTask\<close>: the failed task is added to the dead-letter set
  with the failure time as score; when marshalling or the Redis command fails (\<open>dlqOK\<close>
  false) the failure is logged and nothing is stored.
\<close>

definition HandleFailedTask :: "bool \<Rightarrow> time \<Rightarrow> RedisState \<Rightarrow> Task \<Rightarrow> string \<Rightarrow> RedisState" where
  "HandleFailedTask dlqOK now st task err =
     (if dlqOK
      then st\<lparr>dlq := ZAdd (dlq st) (UnixNano now)
                        \<lparr>FT_Task = task, Error = err, FailedAt = now, FT_Attempts = Attempts task\<rparr>\<rparr>
      else st)"

definition moveToDLQ ::
  "RedisQueue \<Rightarrow> (string \<Rightarrow> Task option) \<Rightarrow> bool \<Rightarrow> time \<Rightarrow> RedisState \<Rightarrow> string \<Rightarrow> string
   \<Rightarrow> RedisState" where
  "moveToDLQ q unmarshal dlqOK now st taskData err =
     (if \<not> EnableDLQ q \<or> \<not> dlqHandlerSet q then st
      else case unmarshal taskData of
        None \<Rightarrow>
          HandleFailedTask dlqOK now st
            \<lparr>Task_ID = ''corrupted_'' @ fmt_d (UnixNano now), Type = ''corrupted'',
             Data = Some [(''raw_data'', taskData)], ExecuteAt = 0, Task_CreatedAt = now,
             Attempts = 0, MaxRetries = 0\<rparr>
            ''corrupted task''
      | Some task \<Rightarrow> HandleFailedTask dlqOK now st task err)"

text \<open>
  \<open>executeTaskWithRetry\<close>. The handler reads the task and returns \<open>None\<close> or the message of
  its error; the handlers of the repository never write to the task. \<open>rnd\<close> is the random
  source (three draws for each round), \<open>done n\<close> tells whether the context is cancelled
  during the wait of round \<open>n\<close>. The result is the outcome, the task as the loop leaves it,
  and the value of \<open>Attempts\<close> at each call of the handler, in order.

  \<open>task.Attempts++\<close> is an increment of a 64-bit \<open>int\<close> and wraps around. The loop ends all
  the same, whatever \<open>MaxRetries\<close> is: from the 64th attempt on, the shift in
  \<open>calculateBackoff\<close> leaves a backoff that is not positive and \<open>rand.Int63n\<close> panics, so a
  round is followed by another one only while \<open>Attempts\<close> is at most 63, and the counter
  does not wrap again after the first round.
\<close>

datatype outcome = Succeeded | Failed string | ContextDone | Panicked panic

function executeTaskWithRetry ::
  "RetryManager \<Rightarrow> (Task \<Rightarrow> string option) \<Rightarrow> (nat \<Rightarrow> int) \<Rightarrow> (nat \<Rightarrow> bool) \<Rightarrow> nat \<Rightarrow> Task
   \<Rightarrow> outcome \<times> Task \<times> int list" where
  "executeTaskWithRetry r handler rnd done n task =
     (let task1 = task\<lparr>Attempts := wrap64 (Attempts task + 1)\<rparr> in
      case handler task1 of
        None \<Rightarrow> (Succeeded, task1, [Attempts task1])
      | Some err \<Rightarrow>
          (case ShouldRetry r task1 (Some err) (rnd (3 * n)) (rnd (3 * n + 1)) of
             Inl p \<Rightarrow> (Panicked p, task1, [Attempts task1])
           | Inr (shouldRetry, delay) \<Rightarrow>
               if \<not> shouldRetry then (Failed err, task1, [Attempts task1])
               else
                 (case Int63n (rnd (3 * n + 2)) (quot delay millisecond) of
                    Inl p \<Rightarrow> (Panicked p, task1, [Attempts task1])
                  | Inr jitter \<Rightarrow>
                      if done n then (ContextDone, task1, [Attempts task1])
                      else
                        (case executeTaskWithRetry r handler rnd done (Suc n) task1 of
                           (out, t, trace) \<Rightarrow> (out, t, Attempts task1 # trace)))))"
  by pat_completeness auto
termination
proof -
  have range: "\<And>x. - (2 ^ 63) \<le> wrap64 x \<and> wrap64 x < 2 ^ 63"
  proof -
    fix x :: int
    have "0 \<le> (x + 2 ^ 63) mod 2 ^ 64" "(x + 2 ^ 63) mod 2 ^ 64 < 2 ^ 64"
      by simp_all
    then show "- (2 ^ 63) \<le> wrap64 x \<and> wrap64 x < 2 ^ 63"
      by (simp add: wrap64_def)
  qed
  have ident: "\<And>x. - (2 ^ 63) \<le> x \<Longrightarrow> x < 2 ^ 63 \<Longrightarrow> wrap64 x = x"
    by (simp add: wrap64_def)
  have half: "\<And>x. (2 ^ 63 :: int) dvd x \<Longrightarrow> wrap64 x \<le> 0 \<and> 2 ^ 63 dvd wrap64 x"
  proof -
    fix x :: int
    assume "2 ^ 63 dvd x"
    then obtain k where k: "x = 2 ^ 63 * k" ..
    have "(2 ^ 63 * (k + 1)) mod (2 ^ 63 * 2) = (2 ^ 63 :: int) * ((k + 1) mod 2)"
      by (rule mult_mod_right [symmetric])
    then have "(x + 2 ^ 63) mod 2 ^ 64 = (2 ^ 63 :: int) * ((k + 1) mod 2)"
      by (simp add: k algebra_simps)
    then have w: "wrap64 x = 2 ^ 63 * ((k + 1) mod 2) - 2 ^ 63"
      by (simp add: wrap64_def)
    have "(k + 1) mod 2 = 0 \<or> (k + 1) mod 2 = 1" by presburger
    then show "wrap64 x \<le> 0 \<and> 2 ^ 63 dvd wrap64 x"
      unfolding w by auto
  qed
  have late: "\<And>r a r1 r2 d. calculateBackoff r a r1 r2 = Inr d \<Longrightarrow> a \<le> 63"
  proof (rule ccontr)
    fix r a r1 r2 d
    assume c: "calculateBackoff r a r1 r2 = Inr d" and "\<not> a \<le> 63"
    then have a: "64 \<le> a" by simp
    then have "63 \<le> nat (a - 1)" by simp
    then have "(2 ^ 63 :: int) dvd 2 ^ nat (a - 1)" by (rule le_imp_power_dvd)
    then have "2 ^ 63 dvd shl1 (a - 1)" using half by (simp add: shl1_def)
    then have "2 ^ 63 dvd baseDelay r * shl1 (a - 1)" by simp
    then have "wrap64 (baseDelay r * shl1 (a - 1)) \<le> 0" using half by blast
    then have "quot (wrap64 (baseDelay r * shl1 (a - 1))) 2 \<le> 0"
      by (auto simp: quot_def sgn_if mult_le_0_iff)
    with c a show False
      by (simp add: calculateBackoff_def Let_def Int63n_def)
  qed
  have step: "\<And>r t e r1 r2 d a. ShouldRetry r (t\<lparr>Attempts := wrap64 a\<rparr>) e r1 r2 = Inr (True, d) \<Longrightarrow>
      nat (64 - wrap64 (wrap64 a + 1)) < nat (64 - wrap64 a)"
  proof -
    fix r t e r1 r2 d a
    assume "ShouldRetry r (t\<lparr>Attempts := wrap64 a\<rparr>) e r1 r2 = Inr (True, d)"
    then have "\<exists>d. calculateBackoff r (wrap64 a) r1 r2 = Inr d"
      by (auto simp: ShouldRetry_def split: if_splits sum.splits)
    then have le: "wrap64 a \<le> 63" using late by blast
    with range [of a] have "wrap64 (wrap64 a + 1) = wrap64 a + 1"
      by (intro ident) simp_all
    with le show "nat (64 - wrap64 (wrap64 a + 1)) < nat (64 - wrap64 a)" by simp
  qed
  show ?thesis
    by (relation "measure (\<lambda>(r, handler, rnd, done, n, task). nat (64 - wrap64 (Attempts task + 1)))")
       (auto dest: step)
qed

text \<open>
  What \<open>processBatch\<close> meets outside the store: \<open>json.Unmarshal\<close>, the subscriber's
  handler, the random source, the cancellation of the context, the clock, and whether the
  Redis commands it issues succeed.
\<close>

record Env =
  jsonUnmarshal :: "string \<Rightarrow> Task option"
  subscriber :: "Task \<Rightarrow> string option"
  randSource :: "nat \<Rightarrow> int"
  ctxDone :: "nat \<Rightarrow> bool"
  clockNow :: time
  popOK :: bool
  dlqOK :: bool
  lremOK :: bool

datatype result = Returned "qerror option" | Crashed panic

definition errorMessage :: "outcome \<Rightarrow> string" where
  "errorMessage out = (case out of Failed err \<Rightarrow> err | _ \<Rightarrow> ''context canceled'')"

text \<open>
  \<open>processBatch\<close>. \<open>BRPopLPush\<close> takes the right end of the ready list and puts it at the
  left end of the in-flight list; an empty ready list is the timeout. A task that does not
  unmarshal is handed to \<open>moveToDLQ\<close> and the function returns at once. Otherwise the task
  is executed, a failure is handed to the dead-letter handler, and \<open>LRem\<close> removes the
  first occurrence of the data from the in-flight list. A panic ends the worker where it
  is raised.
\<close>

definition processBatch :: "RedisQueue \<Rightarrow> Env \<Rightarrow> RedisState \<Rightarrow> result \<times> RedisState" where
  "processBatch q env st =
     (if \<not> popOK env then (Returned (Some ErrMoveToProcessing), st)
      else if mainQueue st = [] then (Returned None, st)
      else
        let taskData = last (mainQueue st);
            st1 = st\<lparr>mainQueue := butlast (mainQueue st),
                     processingQueue := taskData # processingQueue st\<rparr>
        in case jsonUnmarshal env taskData of
             None \<Rightarrow>
               (Returned None,
                moveToDLQ q (jsonUnmarshal env) (dlqOK env) (clockNow env) st1 taskData
                  ''invalid task format'')
           | Some task \<Rightarrow>
               (case executeTaskWithRetry (retryManager q) (subscriber env) (randSource env)
                       (ctxDone env) 0 task of
                  (Panicked p, task', trace) \<Rightarrow> (Crashed p, st1)
                | (out, task', trace) \<Rightarrow>
                    let st2 = (if out \<noteq> Succeeded \<and> dlqHandlerSet q
                               then HandleFailedTask (dlqOK env) (clockNow env) st1 task'
                                      (errorMessage out)
                               else st1);
                        st3 = (if lremOK env
                               then st2\<lparr>processingQueue := remove1 taskData (processingQueue st2)\<rparr>
                               else st2)
                    in (Returned None, st3)))"

text \<open>A queue with the default configuration, and sample inputs.\<close>

definition queue0 :: RedisQueue where
  "queue0 = \<lparr>cfg_MaxRetries = 3, EnableDLQ = True, dlqHandlerSet = True,
             retryManager = NewRetryManager 3 (5 * second)\<rparr>"

definition empty_store :: RedisState where
  "empty_store = \<lparr>mainQueue = [], delayedQueue = [], processingQueue = [], dlq = []\<rparr>"

definition good_data :: string where
  "good_data = ''{task t1}''"

definition env0 :: Env where
  "env0 = \<lparr>jsonUnmarshal = (\<lambda>s. if s = good_data then Some (sample_task\<lparr>Attempts := 0\<rparr>) else None),
           subscriber = (\<lambda>t. None),
           randSource = (\<lambda>n. 0),
           ctxDone = (\<lambda>n. False),
           clockNow = 62135596800 * second + 5,
           popOK = True, dlqOK = True, lremOK = True\<rparr>"

definition always_timeout :: "Task \<Rightarrow> string option" where
  "always_timeout t = Some ''connection timeout''"

text \<open>Sample inputs of \<open>Publish\<close>: a clock reading, a task with neither identifier nor type, and a marshaller.\<close>

definition t_now :: time where
  "t_now = 62135596800 * second + 1700000000 * second"

definition untyped_task :: Task where
  "untyped_task = sample_task\<lparr>Task_ID := [], Type := []\<rparr>"


section \<open>Properties of the reservation engine\<close>

subsection \<open>What \<open>UpdateStatus\<close> writes\<close>

lemma find_map_setStatus:
  "find (\<lambda>b. ID b = i) bs = Some b \<Longrightarrow>
   find (\<lambda>b. ID b = i) (map (setStatus now i s) bs) = Some (b\<lparr>Status := s, UpdatedAt := now\<rparr>)"
  by (induction bs) (auto simp: setStatus_def)

lemma find_map_setStatus_None:
  "find (\<lambda>b. ID b = i) bs = None \<Longrightarrow> find (\<lambda>b. ID b = i) (map (setStatus now j s) bs) = None"
  by (induction bs) (auto simp: setStatus_def)

lemma UpdateStatus_not_confirming:
  "findBooking d i = Some b \<Longrightarrow> s \<noteq> BookingStatusConfirmed \<Longrightarrow>
   UpdateStatus now d i s = Inr (d\<lparr>bookings := map (setStatus now i s) (bookings d)\<rparr>)"
  by (simp add: UpdateStatus_def)

lemma UpdateStatus_missing:
  "findBooking d i = None \<Longrightarrow> UpdateStatus now d i s = Inl ErrFailedToGetCurrentBooking"
  by (simp add: UpdateStatus_def)

lemma UpdateStatus_cases:
  "UpdateStatus now d i s = Inr d' \<Longrightarrow>
   d' = d\<lparr>bookings := map (setStatus now i s) (bookings d)\<rparr>"
  by (auto simp: UpdateStatus_def Let_def split: option.splits if_splits)

lemma setStatus_twice:
  "map (\<lambda>b. b\<lparr>UpdatedAt := 0\<rparr>) (map (setStatus n2 i s) (map (setStatus n1 i s) bs)) =
   map (\<lambda>b. b\<lparr>UpdatedAt := 0\<rparr>) (map (setStatus n1 i s) bs)"
  by (induction bs) (auto simp: setStatus_def)

text \<open>
  Claim C4, as the code has it. \<open>ExpireBooking\<close> sets the status of an existing booking to
  \<open>expired\<close> whatever its current status is, changing only \<open>status\<close> and \<open>updated_at\<close>;
  for an identifier with no row it returns the repository's error and leaves the store as
  it was; and applying it twice leaves the same store as applying it once, up to
  \<open>updated_at\<close>. The check that the booking is still pending is made by the queue's
  handler before it calls \<open>ExpireBooking\<close>, not by \<open>ExpireBooking\<close>.
\<close>

theorem ExpireBooking_sets_expired:
  "(findBooking d i = Some b \<longrightarrow>
      ExpireBooking now d i =
        (d\<lparr>bookings := map (setStatus now i BookingStatusExpired) (bookings d)\<rparr>, None) \<and>
      findBooking (fst (ExpireBooking now d i)) i =
        Some (b\<lparr>Status := BookingStatusExpired, UpdatedAt := now\<rparr>)) \<and>
   (findBooking d i = None \<longrightarrow>
      ExpireBooking now d i = (d, Some ErrFailedToGetCurrentBooking)) \<and>
   forgetUpdatedAt (fst (ExpireBooking now' (fst (ExpireBooking now d i)) i)) =
     forgetUpdatedAt (fst (ExpireBooking now d i))"
proof -
  have A: "findBooking d i = Some b \<longrightarrow>
      ExpireBooking now d i =
        (d\<lparr>bookings := map (setStatus now i BookingStatusExpired) (bookings d)\<rparr>, None) \<and>
      findBooking (fst (ExpireBooking now d i)) i =
        Some (b\<lparr>Status := BookingStatusExpired, UpdatedAt := now\<rparr>)"
    by (auto simp: ExpireBooking_def UpdateStatus_not_confirming findBooking_def find_map_setStatus)
  have B: "findBooking d i = None \<longrightarrow>
      ExpireBooking now d i = (d, Some ErrFailedToGetCurrentBooking)"
    by (simp add: ExpireBooking_def UpdateStatus_missing)
  have C: "forgetUpdatedAt (fst (ExpireBooking now' (fst (ExpireBooking now d i)) i)) =
     forgetUpdatedAt (fst (ExpireBooking now d i))"
  proof (cases "findBooking d i")
    case None
    then show ?thesis by (simp add: ExpireBooking_def UpdateStatus_missing)
  next
    case (Some c)
    let ?d1 = "d\<lparr>bookings := map (setStatus now i BookingStatusExpired) (bookings d)\<rparr>"
    have 1: "ExpireBooking now d i = (?d1, None)"
      using Some by (simp add: ExpireBooking_def UpdateStatus_not_confirming)
    have "findBooking ?d1 i = Some (c\<lparr>Status := BookingStatusExpired, UpdatedAt := now\<rparr>)"
      using Some by (simp add: findBooking_def find_map_setStatus)
    then have 2: "ExpireBooking now' ?d1 i =
        (?d1\<lparr>bookings := map (setStatus now' i BookingStatusExpired) (bookings ?d1)\<rparr>, None)"
      by (simp add: ExpireBooking_def UpdateStatus_not_confirming)
    show ?thesis
      by (simp add: 1 2 forgetUpdatedAt_def setStatus_twice del: map_map)
  qed
  from A B C show ?thesis by blast
qed


subsection \<open>Terminal statuses are kept by every operation but a reset to pending\<close>

lemma ID_setStatus [simp]: "ID (setStatus now j s b) = ID b"
  by (simp add: setStatus_def)

lemma rowsOf_setStatus:
  "rowsOf (d\<lparr>bookings := map (setStatus now j s) (bookings d)\<rparr>) i =
   map (setStatus now j s) (rowsOf d i)"
  by (simp add: rowsOf_def filter_map comp_def)

lemma keeps_setStatus:
  assumes "keeps d i" and "isTerminal s"
  shows "keeps (d\<lparr>bookings := map (setStatus now j s) (bookings d)\<rparr>) i"
proof -
  have "list_all (\<lambda>b. isTerminal (Status b)) (map (setStatus now j s) (rowsOf d i))"
    using assms by (auto simp: keeps_def terminalAt_def list_all_iff setStatus_def)
  moreover have "idsBelowNext (d\<lparr>bookings := map (setStatus now j s) (bookings d)\<rparr>)"
    using assms by (auto simp: keeps_def idsBelowNext_def list_all_iff)
  ultimately show ?thesis
    using assms by (simp add: keeps_def terminalAt_def rowsOf_setStatus)
qed

lemma keeps_UpdateStatus:
  "keeps d i \<Longrightarrow> isTerminal s \<Longrightarrow> UpdateStatus now d j s = Inr d' \<Longrightarrow> keeps d' i"
  by (auto dest!: UpdateStatus_cases intro: keeps_setStatus)

lemma find_Some_in_rows:
  "find (\<lambda>b. ID b = j) bs = Some c \<Longrightarrow> c \<in> set (filter (\<lambda>b. ID b = j) bs) \<and> ID c = j"
  by (induction bs) (auto split: if_splits)

lemma filter_other_rows:
  "ID c \<noteq> i \<Longrightarrow>
   filter (\<lambda>b. ID b = i)
     (map (\<lambda>b. if ID b = ID c then c\<lparr>Seats := n, CreatedAt := CreatedAt b, UpdatedAt := now\<rparr>
                else b) bs) =
   filter (\<lambda>b. ID b = i) bs"
  by (induction bs) auto

lemma keeps_Update:
  assumes k: "keeps d i" and f: "findBooking d j = Some c"
    and p: "Status c = BookingStatusPending" and u: "Update now d (c\<lparr>Seats := n\<rparr>) = Inr d'"
  shows "keeps d' i"
proof -
  from f have c: "c \<in> set (rowsOf d j)" "ID c = j"
    using find_Some_in_rows [of j "bookings d" c] by (simp_all add: findBooking_def rowsOf_def)
  have ne: "j \<noteq> i"
  proof
    assume "j = i"
    with c k have "isTerminal (Status c)" by (auto simp: keeps_def terminalAt_def list_all_iff)
    with p show False by (simp add: isTerminal_def)
  qed
  from u f c have d': "d' = d\<lparr>bookings := map (\<lambda>b. if ID b = j
        then c\<lparr>Seats := n, CreatedAt := CreatedAt b, UpdatedAt := now\<rparr> else b) (bookings d)\<rparr>"
    by (auto simp: Update_def split: if_splits)
  have r: "rowsOf d' i = rowsOf d i"
    unfolding d' rowsOf_def using ne c filter_other_rows [where c=c and i=i and n=n and now=now and bs="bookings d"] by simp
  have "idsBelowNext d'"
    using k c unfolding d' by (auto simp: keeps_def idsBelowNext_def list_all_iff rowsOf_def)
  with k r show ?thesis by (simp add: keeps_def terminalAt_def)
qed

lemma keeps_Create:
  assumes k: "keeps d i" and c: "Create now d b = Inr (d', b')"
  shows "keeps d' i"
proof -
  from k have "rowsOf d i \<noteq> []" by (simp add: keeps_def terminalAt_def)
  then have "hd (rowsOf d i) \<in> set (rowsOf d i)" by simp
  then have "hd (rowsOf d i) \<in> set (bookings d)" "ID (hd (rowsOf d i)) = i"
    by (simp_all add: rowsOf_def)
  with k have lt: "i < next_booking_id d"
    by (auto simp: keeps_def idsBelowNext_def list_all_iff)
  from c have d': "d' = d\<lparr>bookings := bookings d @ [b\<lparr>ID := next_booking_id d,
         ExpiresAt := now + ReservationTimeout b * minute, CreatedAt := now, UpdatedAt := now\<rparr>],
       next_booking_id := next_booking_id d + 1\<rparr>"
    by (auto simp: Create_def Let_def split: option.splits if_splits)
  have "rowsOf d' i = rowsOf d i" using lt by (simp add: d' rowsOf_def)
  moreover have "idsBelowNext d'"
    using k by (auto simp: d' keeps_def idsBelowNext_def list_all_iff)
  ultimately show ?thesis using k by (simp add: keeps_def terminalAt_def)
qed

lemma keeps_step:
  assumes k: "keeps d i" and n: "\<not> resetsToPending op"
  shows "keeps (step d (now, op)) i"
proof (cases op)
  case (OpBookSeats req)
  then show ?thesis using k
    by (auto simp: BookSeats_def Let_def split: sum.splits option.splits if_splits
             dest: keeps_Create)
next
  case (OpConfirmBooking j)
  then show ?thesis using k
    by (auto simp: ConfirmBooking_def isTerminal_def split: sum.splits if_splits
             dest: keeps_UpdateStatus [rotated 2])
next
  case (OpCancelBooking j r)
  then show ?thesis using k
    by (auto simp: CancelBooking_def isTerminal_def split: sum.splits if_splits
             dest: keeps_UpdateStatus [rotated 2])
next
  case (OpExpireBooking j)
  then show ?thesis using k
    by (auto simp: ExpireBooking_def isTerminal_def split: sum.splits if_splits
             dest: keeps_UpdateStatus [rotated 2])
next
  case (OpUpdateBookingSeats j m)
  then show ?thesis using k
    by (auto simp: UpdateBookingSeats_def GetByID_def Let_def
             split: sum.splits option.splits if_splits dest: keeps_Update)
next
  case (OpUpdateBookingStatus j s)
  with n have "s \<noteq> BookingStatusPending" by simp
  then have "validStatus s \<Longrightarrow> isTerminal s" by (auto simp: validStatus_def isTerminal_def)
  with OpUpdateBookingStatus k show ?thesis
    by (auto simp: UpdateBookingStatus_def split: sum.splits if_splits
             dest: keeps_UpdateStatus [rotated 2])
qed

lemma keeps_run:
  "keeps d i \<Longrightarrow> list_all noReset ops \<Longrightarrow> keeps (run d ops) i"
  unfolding run_def
proof (induction ops arbitrary: d)
  case Nil
  then show ?case by simp
next
  case (Cons x xs)
  obtain now op where x: "x = (now, op)" by (cases x)
  with Cons.prems have "keeps (step d x) i" by (simp add: keeps_step noReset_def)
  with Cons show ?case by simp
qed

subsection \<open>The operations on sample stores\<close>

text \<open>The two stores used below are reached from the empty store by the run.\<close>

lemma booking_run_reaches: "run db0 (take 2 overbooking_run) = db_pending \<and> run db0 booking_run = db_confirmed"
  by code_simp

text \<open>
  Claim C1 (capacity, P2). The run \<open>overbooking_run\<close> uses public operations only: two
  users reserve the single seat of the event, the first confirms, the second reservation
  is expired and then set to \<open>confirmed\<close> through \<open>UpdateBookingStatus\<close>. \<open>UpdateStatus\<close>
  checks the seats only when the current status is \<open>pending\<close>, so the last step is accepted:
  the capacity holds before it and two seats are confirmed of one after it.
\<close>

theorem capacity_exceeded_after_status_update:
  "capacityOK (run db0 (butlast overbooking_run)) event1 \<and>
   confirmedSeats (run db0 overbooking_run) (Event_ID event1) = 2 \<and>
   TotalSeats event1 = 1 \<and>
   \<not> capacityOK (run db0 overbooking_run) event1"
  by code_simp

text \<open>
  Claim C4 as stated fails: on a confirmed booking \<open>ExpireBooking\<close> is not a no-op, it
  succeeds and the booking becomes \<open>expired\<close>.
\<close>

theorem ExpireBooking_confirmed_counterexample:
  "map Status (bookings db_confirmed) = [BookingStatusConfirmed, BookingStatusPending] \<and>
   snd (ExpireBooking 13 db_confirmed 1) = None \<and>
   map Status (bookings (fst (ExpireBooking 13 db_confirmed 1))) =
     [BookingStatusExpired, BookingStatusPending]"
  by code_simp

text \<open>The amended claim C4 at a confirmed booking, at a missing identifier, and applied twice.\<close>

theorem ExpireBooking_sets_expired_witness:
  "findBooking db_confirmed 1 = Some confirmed1 \<and>
   ExpireBooking 13 db_confirmed 1 =
     (db_confirmed\<lparr>bookings := map (setStatus 13 1 BookingStatusExpired) (bookings db_confirmed)\<rparr>, None) \<and>
   findBooking (fst (ExpireBooking 13 db_confirmed 1)) 1 =
     Some (confirmed1\<lparr>Status := BookingStatusExpired, UpdatedAt := 13\<rparr>) \<and>
   findBooking db_confirmed 7 = None \<and>
   ExpireBooking 13 db_confirmed 7 = (db_confirmed, Some ErrFailedToGetCurrentBooking) \<and>
   forgetUpdatedAt (fst (ExpireBooking 14 (fst (ExpireBooking 13 db_confirmed 1)) 1)) =
     forgetUpdatedAt (fst (ExpireBooking 13 db_confirmed 1))"
proof -
  have f: "findBooking db_confirmed 1 = Some confirmed1" by code_simp
  have g: "findBooking db_confirmed 7 = None" by code_simp
  show ?thesis
    using f g ExpireBooking_sets_expired [of db_confirmed 1 confirmed1 13 14]
      ExpireBooking_sets_expired [of db_confirmed 7 confirmed1 13 14]
    by blast
qed

text \<open>
  Claim C5 as stated fails: \<open>UpdateBookingStatus\<close> accepts \<open>pending\<close> as a target status, and
  \<open>UpdateStatus\<close> writes it over a confirmed booking.
\<close>

theorem UpdateBookingStatus_pending_counterexample:
  "map Status (bookings db_confirmed) = [BookingStatusConfirmed, BookingStatusPending] \<and>
   isTerminal (Status confirmed1) \<and>
   map Status (bookings (run db_confirmed [(13, OpUpdateBookingStatus 1 BookingStatusPending)])) =
     [BookingStatusPending, BookingStatusPending]"
  by code_simp

text \<open>
  Claim C5 (terminal absorption, P4), as the code has it. In a store whose sequence is
  above every identifier in use, a booking whose status is confirmed, cancelled or expired
  keeps a status among these three through every sequence of public operations in which
  \<open>UpdateBookingStatus\<close> is not called with the target status \<open>pending\<close>.
\<close>

theorem terminal_absorption_without_reset:
  "idsBelowNext d \<Longrightarrow> terminalAt d i \<Longrightarrow> list_all noReset ops \<Longrightarrow>
   terminalAt (run d ops) i \<and> idsBelowNext (run d ops)"
  using keeps_run [of d i ops] by (simp add: keeps_def)

text \<open>The amended claim C5 on a confirmed booking and a run of five operations.\<close>

theorem terminal_absorption_without_reset_witness:
  "idsBelowNext db_confirmed \<and> terminalAt db_confirmed 1 \<and>
   list_all noReset [(13, OpExpireBooking 1), (14, OpUpdateBookingStatus 1 BookingStatusConfirmed),
                     (15, OpUpdateBookingSeats 1 4), (16, OpConfirmBooking 1), (17, OpCancelBooking 1 ''late'')] \<and>
   terminalAt (run db_confirmed
     [(13, OpExpireBooking 1), (14, OpUpdateBookingStatus 1 BookingStatusConfirmed),
      (15, OpUpdateBookingSeats 1 4), (16, OpConfirmBooking 1), (17, OpCancelBooking 1 ''late'')]) 1"
proof -
  let ?ops = "[(13, OpExpireBooking 1), (14, OpUpdateBookingStatus 1 BookingStatusConfirmed),
      (15, OpUpdateBookingSeats 1 4), (16, OpConfirmBooking 1), (17, OpCancelBooking 1 ''late'')]"
  have a: "idsBelowNext db_confirmed" by code_simp
  have b: "terminalAt db_confirmed 1" by code_simp
  have c: "list_all noReset ?ops" by code_simp
  from terminal_absorption_without_reset [OF a b c] a b c show ?thesis by blast
qed

text \<open>
  Claim C6. With two seats available, raising a pending reservation from one seat to fifty
  is an increase of 49 seats, more than the available seats; the claim has it rejected.
  \<open>UpdateBookingSeats\<close> adds the difference to the available seats where it should subtract
  it, \<open>2 + 49 < 0\<close> is false, and the update is accepted and stored.
\<close>

theorem UpdateBookingSeats_accepts_excess_increase:
  "Event_GetByID db_seats 1 =
     Inr \<lparr>EventOf = event1\<lparr>TotalSeats := 10\<rparr>, AvailableSeats = 2, BookedSeats = 8\<rparr> \<and>
   map Seats (bookings db_seats) = [8, 1] \<and>
   map Status (bookings db_seats) = [BookingStatusConfirmed, BookingStatusPending] \<and>
   snd (UpdateBookingSeats 20 db_seats 2 50) = None \<and>
   map Seats (bookings (fst (UpdateBookingSeats 20 db_seats 2 50))) = [8, 50]"
  by code_simp

text \<open>
  Claim C7. \<open>ConfirmBooking\<close> succeeds exactly when the booking exists and is pending, the
  clock is not past \<open>expires_at\<close>, and the confirmed seats of its event plus its own seats
  do not exceed the event's total seats; it then sets the status to \<open>confirmed\<close>. On a
  pending booking past its deadline it sets the status to \<open>expired\<close> and fails with the
  expiry error. On an already confirmed booking it fails with the not-pending error and
  the store is unchanged.
\<close>

theorem ConfirmBooking_spec:
  "(snd (ConfirmBooking now d i) = None \<longleftrightarrow>
      (\<exists>b ev. findBooking d i = Some b \<and> Status b = BookingStatusPending \<and> now \<le> ExpiresAt b \<and>
         findEvent d (EventID b) = Some ev \<and>
         confirmedSeats d (EventID b) + Seats b \<le> TotalSeats ev)) \<and>
   (snd (ConfirmBooking now d i) = None \<longrightarrow>
      fst (ConfirmBooking now d i) =
        d\<lparr>bookings := map (setStatus now i BookingStatusConfirmed) (bookings d)\<rparr>) \<and>
   (findBooking d i = Some b \<and> Status b = BookingStatusPending \<and> ExpiresAt b < now \<longrightarrow>
      ConfirmBooking now d i =
        (d\<lparr>bookings := map (setStatus now i BookingStatusExpired) (bookings d)\<rparr>,
         Some ErrBookingExpired) \<and>
      findBooking (fst (ConfirmBooking now d i)) i =
        Some (b\<lparr>Status := BookingStatusExpired, UpdatedAt := now\<rparr>)) \<and>
   (findBooking d i = Some b \<and> Status b = BookingStatusConfirmed \<longrightarrow>
      ConfirmBooking now d i = (d, Some ErrBookingNotPending))"
proof -
  have A: "snd (ConfirmBooking now d i) = None \<longleftrightarrow>
      (\<exists>b ev. findBooking d i = Some b \<and> Status b = BookingStatusPending \<and> now \<le> ExpiresAt b \<and>
         findEvent d (EventID b) = Some ev \<and>
         confirmedSeats d (EventID b) + Seats b \<le> TotalSeats ev)"
    by (auto simp: ConfirmBooking_def GetByID_def Event_GetByID_def UpdateStatus_def
             split: option.splits sum.splits if_splits)
  have B: "snd (ConfirmBooking now d i) = None \<longrightarrow>
      fst (ConfirmBooking now d i) =
        d\<lparr>bookings := map (setStatus now i BookingStatusConfirmed) (bookings d)\<rparr>"
    by (auto simp: ConfirmBooking_def GetByID_def Event_GetByID_def UpdateStatus_def
             split: option.splits sum.splits if_splits)
  have C: "findBooking d i = Some b \<and> Status b = BookingStatusPending \<and> ExpiresAt b < now \<longrightarrow>
      ConfirmBooking now d i =
        (d\<lparr>bookings := map (setStatus now i BookingStatusExpired) (bookings d)\<rparr>,
         Some ErrBookingExpired) \<and>
      findBooking (fst (ConfirmBooking now d i)) i =
        Some (b\<lparr>Status := BookingStatusExpired, UpdatedAt := now\<rparr>)"
    by (auto simp: ConfirmBooking_def GetByID_def UpdateStatus_def findBooking_def
                   find_map_setStatus)
  have D: "findBooking d i = Some b \<and> Status b = BookingStatusConfirmed \<longrightarrow>
      ConfirmBooking now d i = (d, Some ErrBookingNotPending)"
    by (auto simp: ConfirmBooking_def GetByID_def)
  from A B C D show ?thesis by blast
qed

text \<open>Claim C7 at a confirmation in time, one past the deadline, and one repeated.\<close>

theorem ConfirmBooking_spec_witness:
  "snd (ConfirmBooking 12 db_pending 1) = None \<and>
   fst (ConfirmBooking 12 db_pending 1) = db_confirmed \<and>
   findBooking db_pending 1 = Some pending1 \<and> Status pending1 = BookingStatusPending \<and>
   ExpiresAt pending1 < 1800000000011 \<and>
   ConfirmBooking 1800000000011 db_pending 1 =
     (db_pending\<lparr>bookings := map (setStatus 1800000000011 1 BookingStatusExpired) (bookings db_pending)\<rparr>,
      Some ErrBookingExpired) \<and>
   findBooking db_confirmed 1 = Some confirmed1 \<and> Status confirmed1 = BookingStatusConfirmed \<and>
   ConfirmBooking 13 db_confirmed 1 = (db_confirmed, Some ErrBookingNotPending)"
proof -
  have f: "findBooking db_pending 1 = Some pending1" by code_simp
  have s: "Status pending1 = BookingStatusPending" by code_simp
  have t: "12 \<le> ExpiresAt pending1" "ExpiresAt pending1 < 1800000000011" by code_simp+
  have e: "findEvent db_pending (EventID pending1) = Some event1" by code_simp
  have c: "confirmedSeats db_pending (EventID pending1) + Seats pending1 \<le> TotalSeats event1"
    by code_simp
  have r: "db_pending\<lparr>bookings := map (setStatus 12 1 BookingStatusConfirmed) (bookings db_pending)\<rparr>
           = db_confirmed" by code_simp
  have f': "findBooking db_confirmed 1 = Some confirmed1" by code_simp
  have s': "Status confirmed1 = BookingStatusConfirmed" by code_simp
  from f s t e c have ok: "snd (ConfirmBooking 12 db_pending 1) = None"
    using ConfirmBooking_spec [of 12 db_pending 1 pending1] by blast
  then have "fst (ConfirmBooking 12 db_pending 1) = db_confirmed"
    using ConfirmBooking_spec [of 12 db_pending 1 pending1] r by simp
  moreover have "ConfirmBooking 1800000000011 db_pending 1 =
     (db_pending\<lparr>bookings := map (setStatus 1800000000011 1 BookingStatusExpired) (bookings db_pending)\<rparr>,
      Some ErrBookingExpired)"
    using ConfirmBooking_spec [of 1800000000011 db_pending 1 pending1] f s t by blast
  moreover have "ConfirmBooking 13 db_confirmed 1 = (db_confirmed, Some ErrBookingNotPending)"
    using ConfirmBooking_spec [of 13 db_confirmed 1 confirmed1] f' s' by blast
  ultimately show ?thesis using ok f s t f' s' by blast
qed

section \<open>Properties of the task queue\<close>

subsection \<open>The retry loop\<close>

lemma upFrom_Cons:
  "map (\<lambda>k. a + 1 + int k) [0..<Suc m] = (a + 1) # map (\<lambda>k. (a + 1) + 1 + int k) [0..<m]"
  by (simp add: map_upt_Suc del: upt_Suc)

text \<open>
  What a 64-bit result is: itself when it is in range; and zero or \<open>-2^63\<close> when it is a
  multiple of \<open>2^63\<close>, which is why \<open>calculateBackoff\<close> panics from the 64th attempt on.
\<close>

lemma wrap64_id: "- (2 ^ 63) \<le> x \<Longrightarrow> x < 2 ^ 63 \<Longrightarrow> wrap64 x = x"
  by (simp add: wrap64_def)

lemma wrap64_halves: "(2 ^ 63 :: int) dvd x \<Longrightarrow> wrap64 x \<le> 0 \<and> 2 ^ 63 dvd wrap64 x"
proof -
  assume "2 ^ 63 dvd x"
  then obtain k where k: "x = 2 ^ 63 * k" ..
  have "(2 ^ 63 * (k + 1)) mod (2 ^ 63 * 2) = (2 ^ 63 :: int) * ((k + 1) mod 2)"
    by (rule mult_mod_right [symmetric])
  then have "(x + 2 ^ 63) mod 2 ^ 64 = (2 ^ 63 :: int) * ((k + 1) mod 2)"
    by (simp add: k algebra_simps)
  then have w: "wrap64 x = 2 ^ 63 * ((k + 1) mod 2) - 2 ^ 63"
    by (simp add: wrap64_def)
  have "(k + 1) mod 2 = 0 \<or> (k + 1) mod 2 = 1" by presburger
  then show "wrap64 x \<le> 0 \<and> 2 ^ 63 dvd wrap64 x"
    unfolding w by auto
qed

lemma calculateBackoff_panics_late: "calculateBackoff r a r1 r2 = Inr d \<Longrightarrow> a \<le> 63"
proof (rule ccontr)
  assume c: "calculateBackoff r a r1 r2 = Inr d" and "\<not> a \<le> 63"
  then have a: "64 \<le> a" by simp
  then have "63 \<le> nat (a - 1)" by simp
  then have "(2 ^ 63 :: int) dvd 2 ^ nat (a - 1)" by (rule le_imp_power_dvd)
  then have "2 ^ 63 dvd shl1 (a - 1)" using wrap64_halves by (simp add: shl1_def)
  then have "2 ^ 63 dvd baseDelay r * shl1 (a - 1)" by simp
  then have "wrap64 (baseDelay r * shl1 (a - 1)) \<le> 0" using wrap64_halves by blast
  then have "quot (wrap64 (baseDelay r * shl1 (a - 1))) 2 \<le> 0"
    by (auto simp: quot_def sgn_if mult_le_0_iff)
  with c a show False
    by (simp add: calculateBackoff_def Let_def Int63n_def)
qed

lemma ShouldRetry_True_lt:
  "ShouldRetry r t err r1 r2 = Inr (True, d) \<Longrightarrow> Attempts t < MaxRetries t \<and> Attempts t \<le> 63"
  by (auto simp: ShouldRetry_def split: if_splits sum.splits dest: calculateBackoff_panics_late)

text \<open>
  Claim C9 (retry cap, P6), as the code has it. The loop always returns. Let the task enter
  it with \<open>Attempts = a\<close>, a 64-bit value below the largest one, \<open>2^63 - 1\<close>, so that the first
  increment does not wrap around. Then the handler is called with
  \<open>Attempts = a + 1, a + 2, ...\<close> in this order, so the counter grows by exactly one before
  each call; the handler is called at least once and at most \<open>max 1 (MaxRetries - a)\<close>
  times, hence at most \<open>MaxRetries\<close> times when \<open>a \<ge> 0\<close> and \<open>MaxRetries \<ge> 1\<close>; the identifier
  and \<open>MaxRetries\<close> are not changed.
\<close>

theorem executeTaskWithRetry_trace:
  "- (2 ^ 63) \<le> Attempts task \<Longrightarrow> Attempts task < 2 ^ 63 - 1 \<Longrightarrow>
   executeTaskWithRetry r handler rnd done n task = (out, t, trace) \<Longrightarrow>
   trace = map (\<lambda>k. Attempts task + 1 + int k) [0..<length trace] \<and>
   1 \<le> length trace \<and>
   int (length trace) \<le> max 1 (MaxRetries task - Attempts task) \<and>
   (0 \<le> Attempts task \<and> 1 \<le> MaxRetries task \<longrightarrow> int (length trace) \<le> MaxRetries task) \<and>
   Attempts t = Attempts task + int (length trace) \<and>
   MaxRetries t = MaxRetries task \<and> Task_ID t = Task_ID task"
proof (induction r handler rnd "done" n task arbitrary: out t trace
       rule: executeTaskWithRetry.induct)
  case (1 r handler rnd "done" n task)
  let ?task1 = "task\<lparr>Attempts := wrap64 (Attempts task + 1)\<rparr>"
  from "1.prems"(1,2) have w: "wrap64 (Attempts task + 1) = Attempts task + 1"
    by (intro wrap64_id) simp_all
  note run = "1.prems"(3)
  show ?case
  proof (cases "handler ?task1")
    case None
    with run show ?thesis by (auto simp: Let_def w)
  next
    case (Some err)
    show ?thesis
    proof (cases "ShouldRetry r ?task1 (Some err) (rnd (3 * n)) (rnd (3 * n + 1))")
      case (Inl p)
      with Some run show ?thesis by (auto simp: Let_def w)
    next
      case (Inr sd)
      note sr = Inr
      obtain shouldRetry delay where sd: "sd = (shouldRetry, delay)" by (cases sd)
      show ?thesis
      proof (cases shouldRetry)
        case False
        with Some sr sd run show ?thesis by (auto simp: Let_def w)
      next
        case True
        from sr sd True have lt: "Attempts task + 1 < MaxRetries task" "Attempts task + 1 \<le> 63"
          using ShouldRetry_True_lt [of r ?task1 "Some err" "rnd (3 * n)" "rnd (3 * n + 1)" delay]
          by (simp_all add: w)
        show ?thesis
        proof (cases "Int63n (rnd (3 * n + 2)) (quot delay millisecond)")
          case (Inl p)
          with Some sr sd True run show ?thesis by (auto simp: Let_def w)
        next
          case (Inr jitter)
          note j = Inr
          show ?thesis
          proof (cases "done n")
            case True
            with Some sr sd \<open>shouldRetry\<close> j run show ?thesis by (auto simp: Let_def w)
          next
            case False
            obtain out' t' trace' where
              rec: "executeTaskWithRetry r handler rnd done (Suc n) ?task1 = (out', t', trace')"
              by (cases "executeTaskWithRetry r handler rnd done (Suc n) ?task1")
            have lo: "- (2 ^ 63) \<le> Attempts ?task1" using "1.prems"(1) by (simp add: w)
            have hi: "Attempts ?task1 < 2 ^ 63 - 1" using lt by (simp add: w)
            have ih: "trace' = map (\<lambda>k. Attempts ?task1 + 1 + int k) [0..<length trace'] \<and>
                1 \<le> length trace' \<and>
                int (length trace') \<le> max 1 (MaxRetries ?task1 - Attempts ?task1) \<and>
                (0 \<le> Attempts ?task1 \<and> 1 \<le> MaxRetries ?task1 \<longrightarrow>
                   int (length trace') \<le> MaxRetries ?task1) \<and>
                Attempts t' = Attempts ?task1 + int (length trace') \<and>
                MaxRetries t' = MaxRetries ?task1 \<and> Task_ID t' = Task_ID ?task1"
              using "1.IH" [OF refl Some sr sd [symmetric] _ j False lo hi rec] \<open>shouldRetry\<close>
              by simp
            from run Some sr sd \<open>shouldRetry\<close> j False rec
            have res: "out = out'" "t = t'" "trace = (Attempts task + 1) # trace'"
              by (simp_all add: Let_def w)
            have tr: "trace = map (\<lambda>k. Attempts task + 1 + int k) [0..<length trace]"
              using ih res upFrom_Cons [of "Attempts task" "length trace'"] by (simp add: w)
            from ih res lt tr show ?thesis by (auto simp: w)
          qed
        qed
      qed
    qed
  qed
qed

text \<open>
  Claim C9 as stated fails for a task with \<open>MaxRetries = 0\<close>: the handler is called once,
  which is more than \<open>MaxRetries\<close> times. The loop calls the handler before it looks at the
  retry policy.
\<close>

theorem executeTaskWithRetry_zero_retries_counterexample:
  "MaxRetries (sample_task\<lparr>Attempts := 0, MaxRetries := 0\<rparr>) = 0 \<and>
   executeTaskWithRetry (NewRetryManager 3 (5 * second)) always_timeout (\<lambda>n. 0) (\<lambda>n. False) 0
       (sample_task\<lparr>Attempts := 0, MaxRetries := 0\<rparr>) =
     (Failed ''connection timeout'', sample_task\<lparr>Attempts := 1, MaxRetries := 0\<rparr>, [1])"
  by code_simp

text \<open>The amended claim C9 on a task with three retries and a handler that always fails.\<close>

theorem executeTaskWithRetry_trace_witness:
  "- (2 ^ 63) \<le> Attempts (sample_task\<lparr>Attempts := 0\<rparr>) \<and>
   Attempts (sample_task\<lparr>Attempts := 0\<rparr>) < 2 ^ 63 - 1 \<and>
   executeTaskWithRetry (NewRetryManager 3 (5 * second)) always_timeout (\<lambda>n. 0) (\<lambda>n. False) 0
       (sample_task\<lparr>Attempts := 0\<rparr>) =
     (Failed ''connection timeout'', sample_task\<lparr>Attempts := 3\<rparr>, [1, 2, 3]) \<and>
   [1, 2, 3] = map (\<lambda>k. Attempts (sample_task\<lparr>Attempts := 0\<rparr>) + 1 + int k) [0..<length [1, 2, 3 :: int]] \<and>
   int (length [1, 2, 3 :: int]) \<le> MaxRetries (sample_task\<lparr>Attempts := 0\<rparr>)"
proof -
  have e: "executeTaskWithRetry (NewRetryManager 3 (5 * second)) always_timeout (\<lambda>n. 0) (\<lambda>n. False) 0
       (sample_task\<lparr>Attempts := 0\<rparr>) =
     (Failed ''connection timeout'', sample_task\<lparr>Attempts := 3\<rparr>, [1, 2, 3])"
    by code_simp
  have lo: "- (2 ^ 63) \<le> Attempts (sample_task\<lparr>Attempts := 0\<rparr>)" by simp
  have hi: "Attempts (sample_task\<lparr>Attempts := 0\<rparr>) < 2 ^ 63 - 1" by simp
  have a: "0 \<le> Attempts (sample_task\<lparr>Attempts := 0\<rparr>)" "1 \<le> MaxRetries (sample_task\<lparr>Attempts := 0\<rparr>)"
    by (simp_all add: sample_task_def)
  from executeTaskWithRetry_trace [OF lo hi e] a e lo hi show ?thesis by blast
qed

text \<open>
  At the largest 64-bit value the increment wraps: the handler sees \<open>Attempts = -2^63\<close>, which
  is why the claim is stated for a counter below that value.
\<close>

lemma executeTaskWithRetry_wraps:
  "executeTaskWithRetry (NewRetryManager 3 (5 * second)) (\<lambda>t. None) (\<lambda>n. 0) (\<lambda>n. False) 0
       (sample_task\<lparr>Attempts := 9223372036854775807\<rparr>) =
     (Succeeded, sample_task\<lparr>Attempts := - 9223372036854775808\<rparr>, [- 9223372036854775808])"
  by code_simp

subsection \<open>The retry policy\<close>

text \<open>The part of claim C2 that refuses a retry holds: the patterns are in lower case already.\<close>

lemma patterns_lower: "map ToLower nonRetryableErrors = nonRetryableErrors"
  by code_simp

lemma ShouldRetry_refuses:
  "Attempts task \<ge> MaxRetries task \<or>
   list_ex (\<lambda>pattern. Contains (ToLower msg) pattern) nonRetryableErrors \<Longrightarrow>
   ShouldRetry r task (Some msg) r1 r2 = Inr (False, 0)"
proof -
  have "list_ex (\<lambda>pattern. Contains (ToLower msg) (ToLower pattern)) nonRetryableErrors =
        list_ex (\<lambda>pattern. Contains (ToLower msg) pattern) (map ToLower nonRetryableErrors)"
    by (simp add: list_ex_iff)
  then show "Attempts task \<ge> MaxRetries task \<or>
   list_ex (\<lambda>pattern. Contains (ToLower msg) pattern) nonRetryableErrors \<Longrightarrow>
   ShouldRetry r task (Some msg) r1 r2 = Inr (False, 0)"
    by (auto simp: ShouldRetry_def isRetryableError_def patterns_lower)
qed

text \<open>
  Claim C2. The comment of \<open>calculateBackoff\<close> promises a jitter of a quarter, and the claim
  bounds the delay by \<open>0.75\<close> and \<open>1.25\<close> times the capped exponential value. The code draws
  the jitter below half of the backoff, and caps after the jitter. With a base of five
  seconds, at the first attempt a draw of two seconds added gives seven seconds, above
  \<open>1.25 \<times> 5\<close> seconds; at the fifth attempt a draw of \<open>39999999999\<close> nanoseconds subtracted
  gives \<open>40000000001\<close> nanoseconds, below \<open>0.75 \<times> 80\<close> seconds. Both draws are values
  \<open>rand.Int63n\<close> can return.
\<close>

theorem ShouldRetry_jitter_beyond_quarter:
  "Attempts sample_task = 1 \<and> MaxRetries sample_task = 3 \<and>
   isRetryableError (Some ''connection timeout'') \<and>
   Int63n 2000000000 (quot (5 * second) 2) = Inr 2000000000 \<and>
   ShouldRetry (NewRetryManager 3 (5 * second)) sample_task (Some ''connection timeout'')
     2000000000 0 = Inr (True, 7 * second) \<and>
   100 * (7 * second) > 125 * min (5 * second * 2 ^ 0) (16 * (5 * second)) \<and>
   Int63n 39999999999 (quot (5 * second * 2 ^ 4) 2) = Inr 39999999999 \<and>
   ShouldRetry (NewRetryManager 3 (5 * second)) (sample_task\<lparr>Attempts := 5, MaxRetries := 9\<rparr>)
     (Some ''connection timeout'') 39999999999 1 = Inr (True, 40 * second + 1) \<and>
   100 * (40 * second + 1) < 75 * min (5 * second * 2 ^ 4) (16 * (5 * second))"
  by code_simp

subsection \<open>The consumer\<close>

text \<open>For data that does not unmarshal, the entry stays at the left end of the in-flight list.\<close>

lemma processBatch_malformed:
  "popOK env \<Longrightarrow> mainQueue st \<noteq> [] \<Longrightarrow> jsonUnmarshal env (last (mainQueue st)) = None \<Longrightarrow>
   fst (processBatch q env st) = Returned None \<and>
   processingQueue (snd (processBatch q env st)) = last (mainQueue st) # processingQueue st"
  by (simp add: processBatch_def Let_def moveToDLQ_def HandleFailedTask_def)

text \<open>
  Claim C3. The consumer pops malformed data into the in-flight list and ships it to the
  dead-letter queue as raw data, but returns before the \<open>LRem\<close>: the data is still in the
  in-flight list afterwards, where the claim has it removed. On success and on a
  failure that is not retried, the entry is removed.
\<close>

theorem processBatch_malformed_stays_in_flight:
  "jsonUnmarshal env0 ''{broken'' = None \<and>
   fst (processBatch queue0 env0 (empty_store\<lparr>mainQueue := [''{broken'']\<rparr>)) = Returned None \<and>
   processingQueue (snd (processBatch queue0 env0 (empty_store\<lparr>mainQueue := [''{broken'']\<rparr>))) =
     [''{broken''] \<and>
   map (\<lambda>x. Data (FT_Task (snd x)))
       (dlq (snd (processBatch queue0 env0 (empty_store\<lparr>mainQueue := [''{broken'']\<rparr>)))) =
     [Some [(''raw_data'', ''{broken'')]] \<and>
   processingQueue (snd (processBatch queue0 env0 (empty_store\<lparr>mainQueue := [good_data]\<rparr>))) = [] \<and>
   processingQueue (snd (processBatch queue0 (env0\<lparr>subscriber := (\<lambda>t. Some ''booking not found'')\<rparr>)
       (empty_store\<lparr>mainQueue := [good_data]\<rparr>))) = []"
  by code_simp

subsection \<open>Publishing\<close>

text \<open>
  The generated identifier determines the clock reading and the random draw it is made
  of: two identifiers are equal only when both agree.
\<close>

lemma undigits_snoc: "undigits (s @ [c]) = 10 * undigits s + (of_char c - 48)"
  by (simp add: undigits_def)

lemma of_char_digit: "0 \<le> d \<Longrightarrow> d < 10 \<Longrightarrow> (of_char (char_of (48 + d :: int)) :: int) = 48 + d"
  by simp

lemma undigits_digits: "0 \<le> n \<Longrightarrow> undigits (digits n) = n"
proof (induction n rule: digits.induct)
  case (1 n)
  show ?case
  proof (cases "n < 10")
    case True
    with "1.prems" show ?thesis
      by (subst digits.simps) (simp add: undigits_def)
  next
    case False
    then have ih: "undigits (digits (n div 10)) = n div 10"
      using "1.IH" "1.prems" by simp
    have m: "(of_char (char_of (48 + n mod 10)) :: int) = 48 + n mod 10"
      by (rule of_char_digit) simp_all
    from False show ?thesis
      by (subst digits.simps) (simp add: undigits_snoc ih m)
  qed
qed

lemma digits_chars: "0 \<le> n \<Longrightarrow> c \<in> set (digits n) \<Longrightarrow> 48 \<le> (of_char c :: int) \<and> (of_char c :: int) \<le> 57"
proof (induction n rule: digits.induct)
  case (1 n)
  show ?case
  proof (cases "n < 10")
    case True
    with "1.prems" have "c = char_of (48 + n)"
      by (subst (asm) digits.simps) simp
    with True "1.prems"(1) show ?thesis by simp
  next
    case False
    with "1.prems" have "c \<in> set (digits (n div 10)) \<or> c = char_of (48 + n mod 10)"
      by (subst (asm) digits.simps) auto
    then show ?thesis
    proof
      assume "c \<in> set (digits (n div 10))"
      with "1.IH" False "1.prems"(1) show ?thesis by simp
    next
      assume "c = char_of (48 + n mod 10)"
      moreover have "(of_char (char_of (48 + n mod 10)) :: int) = 48 + n mod 10"
        by (rule of_char_digit) simp_all
      ultimately show ?thesis by simp
    qed
  qed
qed

lemma digits_nonempty: "digits n \<noteq> []"
  by (subst digits.simps) simp

lemma fmt_d_chars: "c \<in> set (fmt_d n) \<Longrightarrow> c \<noteq> CHR ''_''"
  using digits_chars [of n c] digits_chars [of "- n" c]
  by (auto simp: fmt_d_def split: if_splits)

lemma fmt_d_inj: "fmt_d a = fmt_d b \<Longrightarrow> a = b"
proof -
  assume e: "fmt_d a = fmt_d b"
  have neg: "\<And>m n. 0 \<le> m \<Longrightarrow> digits m \<noteq> CHR ''-'' # n"
  proof
    fix m n assume "0 \<le> (m::int)" "digits m = CHR ''-'' # n"
    then have "CHR ''-'' \<in> set (digits m)" by simp
    with \<open>0 \<le> m\<close> digits_chars [of m "CHR ''-''"] show False by simp
  qed
  show "a = b"
  proof (cases "a < 0"; cases "b < 0")
    assume "a < 0" "b < 0"
    with e have "digits (- a) = digits (- b)" by (simp add: fmt_d_def)
    then have "undigits (digits (- a)) = undigits (digits (- b))" by simp
    with \<open>a < 0\<close> \<open>b < 0\<close> show ?thesis by (simp add: undigits_digits)
  next
    assume "a < 0" "\<not> b < 0"
    with e neg [of b "digits (- a)"] show ?thesis by (simp add: fmt_d_def)
  next
    assume "\<not> a < 0" "b < 0"
    with e neg [of a "digits (- b)"] show ?thesis by (simp add: fmt_d_def)
  next
    assume "\<not> a < 0" "\<not> b < 0"
    with e have "undigits (digits a) = undigits (digits b)" by (simp add: fmt_d_def)
    with \<open>\<not> a < 0\<close> \<open>\<not> b < 0\<close> show ?thesis by (simp add: undigits_digits)
  qed
qed

lemma generateTaskID_inj:
  "generateTaskID now r = generateTaskID now' r' \<Longrightarrow> now = now' \<and> r = r'"
proof -
  assume "generateTaskID now r = generateTaskID now' r'"
  then have "fmt_d (UnixNano now) @ CHR ''_'' # fmt_d r = fmt_d (UnixNano now') @ CHR ''_'' # fmt_d r'"
    by (simp add: generateTaskID_def)
  moreover have "CHR ''_'' \<notin> set (fmt_d (UnixNano now))" "CHR ''_'' \<notin> set (fmt_d r)"
    using fmt_d_chars by blast+
  ultimately have "fmt_d (UnixNano now) = fmt_d (UnixNano now') \<and> fmt_d r = fmt_d r'"
    using append_Cons_eq_iff [of "CHR ''_''" "fmt_d (UnixNano now)" "fmt_d r"
        "fmt_d (UnixNano now')" "fmt_d r'"] by blast
  then have "UnixNano now = UnixNano now'" "r = r'"
    using fmt_d_inj by blast+
  then show ?thesis by (simp add: UnixNano_def)
qed

lemma generateTaskID_nonempty: "generateTaskID now r \<noteq> []"
  by (simp add: generateTaskID_def)

text \<open>
  Claim C10. For a task with an empty identifier and an empty type, \<open>Publish\<close> returns the
  validation error and enqueues nothing, yet the caller's task has changed: it carries
  the generated identifier.
\<close>

theorem Publish_mutates_task_on_validation_error:
  "Task_ID t = [] \<Longrightarrow> Type t = [] \<Longrightarrow>
   Publish q marshal storeOK now r now' st (Some t) =
     (Some (ErrInvalidTask ErrTaskTypeRequired), Some (t\<lparr>Task_ID := generateTaskID now r\<rparr>), st) \<and>
   t\<lparr>Task_ID := generateTaskID now r\<rparr> \<noteq> t"
proof -
  assume a: "Task_ID t = []" "Type t = []"
  have "Task_ID (t\<lparr>Task_ID := generateTaskID now r\<rparr>) \<noteq> Task_ID t"
    using a generateTaskID_nonempty [of now r] by simp
  then have "t\<lparr>Task_ID := generateTaskID now r\<rparr> \<noteq> t" by metis
  with a show ?thesis by (simp add: Publish_def validateTask_def Let_def)
qed


text \<open>Claim C10 at a task with neither identifier nor type.\<close>

theorem Publish_mutates_task_on_validation_error_witness:
  "Task_ID untyped_task = [] \<and> Type untyped_task = [] \<and>
   Publish queue0 (\<lambda>t. Some (Task_ID t)) True t_now 7 (t_now + 1) empty_store (Some untyped_task) =
     (Some (ErrInvalidTask ErrTaskTypeRequired),
      Some (untyped_task\<lparr>Task_ID := ''task_1700000000000000000_7''\<rparr>), empty_store) \<and>
   untyped_task\<lparr>Task_ID := ''task_1700000000000000000_7''\<rparr> \<noteq> untyped_task"
proof -
  have a: "Task_ID untyped_task = []" "Type untyped_task = []" by code_simp+
  have g: "generateTaskID t_now 7 = ''task_1700000000000000000_7''" by code_simp
  from Publish_mutates_task_on_validation_error [OF a, of queue0 "\<lambda>t. Some (Task_ID t)" True t_now 7
      "t_now + 1" empty_store]
  have p: "Publish queue0 (\<lambda>t. Some (Task_ID t)) True t_now 7 (t_now + 1) empty_store (Some untyped_task) =
     (Some (ErrInvalidTask ErrTaskTypeRequired),
      Some (untyped_task\<lparr>Task_ID := generateTaskID t_now 7\<rparr>), empty_store)"
    and n: "untyped_task\<lparr>Task_ID := generateTaskID t_now 7\<rparr> \<noteq> untyped_task"
    by simp_all
  from a p n show ?thesis unfolding g by (intro conjI)
qed



end
